theory Spec2Isabelle
  imports Main "HOL-Library.Word"
begin

unbundle bit_operations_syntax

section \<open>Machine types and observable effects\<close>

type_synonym u32 = "32 word"
type_synonym u64 = "64 word"

text \<open>
  The handlers have three kinds of effect besides the register file: trace points
  (\<open>trace_stm32f4xx_*\<close>), guest-error diagnostics (\<open>qemu_log_mask(LOG_GUEST_ERROR, ...)\<close>,
  whose argument is \<open>(int)addr\<close>, hence 32 bits) and a pulse of the output interrupt line
  (\<open>qemu_irq_pulse\<close>). Each handler returns the list of effects it performed, in order.
\<close>

datatype event =
    Trace_set_irq int int
  | Trace_read u64
  | Trace_write u64 u32
  | Log_guest_error string u32
  | Irq_pulse

text \<open>
  \<open>g_assert\<close> aborts the process. A shift by a negative amount is undefined in C; the
  model returns it as an error instead of giving it a value.
\<close>

datatype error = Assertion_failed | Undefined_shift

fun is_diagnostic :: "event \<Rightarrow> bool" where
  "is_diagnostic (Log_guest_error msg a) = True"
| "is_diagnostic e = False"

definition diagnostics :: "event list \<Rightarrow> event list" where
  "diagnostics evs = filter is_diagnostic evs"

definition pulses :: "event list \<Rightarrow> nat" where
  "pulses evs = length (filter (\<lambda>e. e = Irq_pulse) evs)"

text \<open>
  QEMU's \<open>BIT(nr)\<close> is \<open>(1UL << (nr))\<close>: an unsigned long, 64 bits on the hosts QEMU
  builds for. The handlers store it into \<open>uint32_t\<close> variables and parameters, which
  truncates it (\<open>ucast\<close>).
\<close>

definition BIT :: "nat \<Rightarrow> u64" where
  "BIT nr = push_bit nr 1"

section \<open>Clock-control peripheral (stm32f4xx\_rcc)\<close>

subsection \<open>Register offsets and the register file\<close>

named_theorems rcc_offs
named_theorems flash_offs

definition RCC_CR :: u64 where [rcc_offs]: "RCC_CR = 0x00"
definition RCC_PLLCFGR :: u64 where [rcc_offs]: "RCC_PLLCFGR = 0x04"
definition RCC_CFGR :: u64 where [rcc_offs]: "RCC_CFGR = 0x08"
definition RCC_CIR :: u64 where [rcc_offs]: "RCC_CIR = 0x0C"
definition RCC_AHB1RSTR :: u64 where [rcc_offs]: "RCC_AHB1RSTR = 0x10"
definition RCC_AHB2RSTR :: u64 where [rcc_offs]: "RCC_AHB2RSTR = 0x14"
definition RCC_APB1RSTR :: u64 where [rcc_offs]: "RCC_APB1RSTR = 0x20"
definition RCC_APB2RSTR :: u64 where [rcc_offs]: "RCC_APB2RSTR = 0x24"
definition RCC_AHB1ENR :: u64 where [rcc_offs]: "RCC_AHB1ENR = 0x30"
definition RCC_AHB2ENR :: u64 where [rcc_offs]: "RCC_AHB2ENR = 0x34"
definition RCC_APB1ENR :: u64 where [rcc_offs]: "RCC_APB1ENR = 0x40"
definition RCC_APB2ENR :: u64 where [rcc_offs]: "RCC_APB2ENR = 0x44"
definition RCC_AHB1LPENR :: u64 where [rcc_offs]: "RCC_AHB1LPENR = 0x50"
definition RCC_AHB2LPENR :: u64 where [rcc_offs]: "RCC_AHB2LPENR = 0x54"
definition RCC_APB1LPENR :: u64 where [rcc_offs]: "RCC_APB1LPENR = 0x60"
definition RCC_APB2LPENR :: u64 where [rcc_offs]: "RCC_APB2LPENR = 0x64"
definition RCC_BDCR :: u64 where [rcc_offs]: "RCC_BDCR = 0x70"
definition RCC_CSR :: u64 where [rcc_offs]: "RCC_CSR = 0x74"
definition RCC_SSCGR :: u64 where [rcc_offs]: "RCC_SSCGR = 0x80"
definition RCC_PLLI2SCFGR :: u64 where [rcc_offs]: "RCC_PLLI2SCFGR = 0x84"
definition RCC_DCKCFGR :: u64 where [rcc_offs]: "RCC_DCKCFGR = 0x8C"

text \<open>The offsets that have a \<open>case\<close> in the read and write switches.\<close>

definition rcc_defined_offsets :: "u64 list" where
  "rcc_defined_offsets =
     [RCC_CR, RCC_PLLCFGR, RCC_CFGR, RCC_CIR, RCC_AHB1RSTR, RCC_AHB2RSTR,
      RCC_APB1RSTR, RCC_APB2RSTR, RCC_AHB1ENR, RCC_AHB2ENR, RCC_APB1ENR, RCC_APB2ENR,
      RCC_AHB1LPENR, RCC_AHB2LPENR, RCC_APB1LPENR, RCC_APB2LPENR, RCC_BDCR, RCC_CSR,
      RCC_SSCGR, RCC_PLLI2SCFGR, RCC_DCKCFGR]"

text \<open>The size given to \<open>memory_region_init_io\<close>: the MMIO window of both peripherals.\<close>

definition mmio_window :: u64 where
  "mmio_window = 0x400"

text \<open>
  \<open>struct STM32F4xxRccState\<close>, with its reserved words (arrays of one or two
  \<open>uint32_t\<close>), which no handler reads or writes.
\<close>

record STM32F4xxRccState =
  rcc_cr :: u32
  rcc_pllcfgr :: u32
  rcc_cfgr :: u32
  rcc_cir :: u32
  rcc_ahb1rstr :: u32
  rcc_ahb2rstr :: u32
  rcc_reserved0 :: "u32 list"
  rcc_apb1rstr :: u32
  rcc_apb2rstr :: u32
  rcc_reserved1 :: "u32 list"
  rcc_ahb1enr :: u32
  rcc_ahb2enr :: u32
  rcc_reserved2 :: "u32 list"
  rcc_apb1enr :: u32
  rcc_apb2enr :: u32
  rcc_reserved3 :: "u32 list"
  rcc_ahb1lpenr :: u32
  rcc_ahb2lpenr :: u32
  rcc_reserved4 :: "u32 list"
  rcc_apb1lpenr :: u32
  rcc_apb2lpenr :: u32
  rcc_reserved5 :: "u32 list"
  rcc_bdcr :: u32
  rcc_csr :: u32
  rcc_reserved6 :: "u32 list"
  rcc_sscgr :: u32
  rcc_plli2scfgr :: u32
  rcc_reserved7 :: "u32 list"
  rcc_dckcfgr :: u32

text \<open>\<open>enum RccIrqEvents\<close>: C enumeration constants are \<open>int\<close>s.\<close>

definition RCC_IRQ_LSI_READY :: int where "RCC_IRQ_LSI_READY = 0"
definition RCC_IRQ_LSE_READY :: int where "RCC_IRQ_LSE_READY = 1"
definition RCC_IRQ_HSI_READY :: int where "RCC_IRQ_HSI_READY = 2"
definition RCC_IRQ_HSE_READY :: int where "RCC_IRQ_HSE_READY = 3"
definition RCC_IRQ_PLL_READY :: int where "RCC_IRQ_PLL_READY = 4"
definition RCC_IRQ_PLLI2S_READY :: int where "RCC_IRQ_PLLI2S_READY = 5"
definition RCC_IRQ_CSS :: int where "RCC_IRQ_CSS = 6"
definition RCC_IRQ_COUNT :: int where "RCC_IRQ_COUNT = 7"

definition RCC_CIR_ENABLE_BIT_OFFSET :: int where
  "RCC_CIR_ENABLE_BIT_OFFSET = 7"

definition RCC_CIR_CLEAR_BIT_OFFSET :: int where
  "RCC_CIR_CLEAR_BIT_OFFSET = 16"

subsection \<open>Reset\<close>

text \<open>The reserved words are left as they are.\<close>

definition stm32f4xx_rcc_reset :: "STM32F4xxRccState \<Rightarrow> STM32F4xxRccState" where
  "stm32f4xx_rcc_reset s =
     s\<lparr>rcc_cr := 0x0000FF81,
       rcc_pllcfgr := 0x24003010,
       rcc_cfgr := 0x00000000,
       rcc_cir := 0x00000000,
       rcc_ahb1rstr := 0x00000000,
       rcc_ahb2rstr := 0x00000000,
       rcc_apb1rstr := 0x00000000,
       rcc_apb2rstr := 0x00000000,
       rcc_ahb1enr := 0x00000000,
       rcc_ahb2enr := 0x00000000,
       rcc_apb1enr := 0x00000000,
       rcc_apb2enr := 0x00000000,
       rcc_ahb1lpenr := 0x0061900F,
       rcc_ahb2lpenr := 0x00000080,
       rcc_apb1lpenr := 0x10E2C80F,
       rcc_apb2lpenr := 0x00077930,
       rcc_bdcr := 0x00000000,
       rcc_csr := 0x0E000000,
       rcc_sscgr := 0x00000000,
       rcc_plli2scfgr := 0x24003000,
       rcc_dckcfgr := 0x00000000\<rparr>"

subsection \<open>Interrupt inputs\<close>

text \<open>
  \<open>irq\<close> and \<open>level\<close> are C \<open>int\<close>s. The trace point comes first, then the assertion.
  \<open>BIT(irq + RCC_CIR_ENABLE_BIT_OFFSET)\<close> is evaluated before the test for the
  clock-security event, so a negative shift count is reached whatever the event is.
  The flag register is updated with \<open>s->rcc_cir |= irq\<close>: the event index itself,
  converted to \<open>uint32_t\<close>, is or-ed in.
\<close>

definition stm32f4xx_rcc_set_irq ::
  "STM32F4xxRccState \<Rightarrow> int \<Rightarrow> int \<Rightarrow> error + (STM32F4xxRccState \<times> event list)" where
  "stm32f4xx_rcc_set_irq s irq level =
     (if \<not> irq < RCC_IRQ_COUNT then Inl Assertion_failed
      else if level \<noteq> 0 then
        (if irq + RCC_CIR_ENABLE_BIT_OFFSET < 0 then Inl Undefined_shift
         else
           let irq_enable_bit = (ucast (BIT (nat (irq + RCC_CIR_ENABLE_BIT_OFFSET))) :: u32) in
           if irq = RCC_IRQ_CSS \<or> rcc_cir s AND irq_enable_bit \<noteq> 0
           then Inr (s\<lparr>rcc_cir := rcc_cir s OR word_of_int irq\<rparr>,
                     [Trace_set_irq irq level, Irq_pulse])
           else Inr (s, [Trace_set_irq irq level, Irq_pulse]))
      else Inr (s, [Trace_set_irq irq level, Irq_pulse]))"

subsection \<open>MMIO read\<close>

definition stm32f4xx_rcc_read :: "STM32F4xxRccState \<Rightarrow> u64 \<Rightarrow> u32 \<Rightarrow> u64 \<times> event list" where
  "stm32f4xx_rcc_read s addr sz =
     (if addr = RCC_CR then (ucast (rcc_cr s), [Trace_read addr])
      else if addr = RCC_PLLCFGR then (ucast (rcc_pllcfgr s), [Trace_read addr])
      else if addr = RCC_CFGR then (ucast (rcc_cfgr s), [Trace_read addr])
      else if addr = RCC_CIR then (ucast (rcc_cir s), [Trace_read addr])
      else if addr = RCC_AHB1RSTR then (ucast (rcc_ahb1rstr s), [Trace_read addr])
      else if addr = RCC_AHB2RSTR then (ucast (rcc_ahb2rstr s), [Trace_read addr])
      else if addr = RCC_APB1RSTR then (ucast (rcc_apb1rstr s), [Trace_read addr])
      else if addr = RCC_APB2RSTR then (ucast (rcc_apb2rstr s), [Trace_read addr])
      else if addr = RCC_AHB1ENR then (ucast (rcc_ahb1enr s), [Trace_read addr])
      else if addr = RCC_AHB2ENR then (ucast (rcc_ahb2enr s), [Trace_read addr])
      else if addr = RCC_APB1ENR then (ucast (rcc_apb1enr s), [Trace_read addr])
      else if addr = RCC_APB2ENR then (ucast (rcc_apb2enr s), [Trace_read addr])
      else if addr = RCC_AHB1LPENR then (ucast (rcc_ahb1lpenr s), [Trace_read addr])
      else if addr = RCC_AHB2LPENR then (ucast (rcc_ahb2lpenr s), [Trace_read addr])
      else if addr = RCC_APB1LPENR then (ucast (rcc_apb1lpenr s), [Trace_read addr])
      else if addr = RCC_APB2LPENR then (ucast (rcc_apb2lpenr s), [Trace_read addr])
      else if addr = RCC_BDCR then (ucast (rcc_bdcr s), [Trace_read addr])
      else if addr = RCC_CSR then (ucast (rcc_csr s), [Trace_read addr])
      else if addr = RCC_SSCGR then (ucast (rcc_sscgr s), [Trace_read addr])
      else if addr = RCC_PLLI2SCFGR then (ucast (rcc_plli2scfgr s), [Trace_read addr])
      else if addr = RCC_DCKCFGR then (ucast (rcc_dckcfgr s), [Trace_read addr])
      else (0, [Trace_read addr,
                Log_guest_error ''STM32F4XX_rcc_read: Bad offset'' (ucast addr)]))"

subsection \<open>Derived bits\<close>

definition set_or_clear_if :: "u32 \<Rightarrow> u32 \<Rightarrow> u32 \<Rightarrow> u32" where
  "set_or_clear_if v msk condition =
     (if condition \<noteq> 0 then v OR msk else v AND NOT msk)"

text \<open>
  Each line reads the enable bit from the value the previous line produced:
  \<open>rcc_cr & BIT(n)\<close> is computed at 64 bits and passed as a \<open>uint32_t\<close>.
\<close>

definition handle_rcc_cr_write :: "u32 \<Rightarrow> u32" where
  "handle_rcc_cr_write rcc_cr0 =
     (let rcc_cr1 = set_or_clear_if rcc_cr0 (ucast (BIT 1)) (ucast (ucast rcc_cr0 AND BIT 0));
          rcc_cr2 = set_or_clear_if rcc_cr1 (ucast (BIT 17)) (ucast (ucast rcc_cr1 AND BIT 16));
          rcc_cr3 = set_or_clear_if rcc_cr2 (ucast (BIT 25)) (ucast (ucast rcc_cr2 AND BIT 24));
          rcc_cr4 = set_or_clear_if rcc_cr3 (ucast (BIT 27)) (ucast (ucast rcc_cr3 AND BIT 26))
      in rcc_cr4)"

definition handle_rcc_cfgr_write :: "u32 \<Rightarrow> u32" where
  "handle_rcc_cfgr_write rcc_cfgr0 =
     (let sysclk_switch_status_offset = (2 :: nat);
          sysclk_switch_status_bits = (push_bit sysclk_switch_status_offset 0x3 :: u32);
          sysclk_switch_bits = (0x3 :: u32);
          sysclk_switch = rcc_cfgr0 AND sysclk_switch_bits
      in (rcc_cfgr0 AND NOT sysclk_switch_status_bits)
           OR push_bit sysclk_switch_status_offset sysclk_switch)"

subsection \<open>MMIO write\<close>

text \<open>\<open>val64\<close> is truncated to 32 bits before anything else.\<close>

definition stm32f4xx_rcc_write ::
  "STM32F4xxRccState \<Rightarrow> u64 \<Rightarrow> u64 \<Rightarrow> u32 \<Rightarrow> STM32F4xxRccState \<times> event list" where
  "stm32f4xx_rcc_write s addr val64 sz =
     (let v = (ucast val64 :: u32); tr = [Trace_write addr v] in
      if addr = RCC_CR then (s\<lparr>rcc_cr := handle_rcc_cr_write v\<rparr>, tr)
      else if addr = RCC_PLLCFGR then (s\<lparr>rcc_pllcfgr := v\<rparr>, tr)
      else if addr = RCC_CFGR then (s\<lparr>rcc_cfgr := handle_rcc_cfgr_write v\<rparr>, tr)
      else if addr = RCC_CIR then (s\<lparr>rcc_cir := v\<rparr>, tr)
      else if addr = RCC_AHB1RSTR then (s\<lparr>rcc_ahb1rstr := v\<rparr>, tr)
      else if addr = RCC_AHB2RSTR then (s\<lparr>rcc_ahb2rstr := v\<rparr>, tr)
      else if addr = RCC_APB1RSTR then (s\<lparr>rcc_apb1rstr := v\<rparr>, tr)
      else if addr = RCC_APB2RSTR then (s\<lparr>rcc_apb2rstr := v\<rparr>, tr)
      else if addr = RCC_AHB1ENR then (s\<lparr>rcc_ahb1enr := v\<rparr>, tr)
      else if addr = RCC_AHB2ENR then (s\<lparr>rcc_ahb2enr := v\<rparr>, tr)
      else if addr = RCC_APB1ENR then (s\<lparr>rcc_apb1enr := v\<rparr>, tr)
      else if addr = RCC_APB2ENR then (s\<lparr>rcc_apb2enr := v\<rparr>, tr)
      else if addr = RCC_AHB1LPENR then (s\<lparr>rcc_ahb1lpenr := v\<rparr>, tr)
      else if addr = RCC_AHB2LPENR then (s\<lparr>rcc_ahb2lpenr := v\<rparr>, tr)
      else if addr = RCC_APB1LPENR then (s\<lparr>rcc_apb1lpenr := v\<rparr>, tr)
      else if addr = RCC_APB2LPENR then (s\<lparr>rcc_apb2lpenr := v\<rparr>, tr)
      else if addr = RCC_BDCR then (s\<lparr>rcc_bdcr := v\<rparr>, tr)
      else if addr = RCC_CSR then (s\<lparr>rcc_csr := v\<rparr>, tr)
      else if addr = RCC_SSCGR then (s\<lparr>rcc_sscgr := v\<rparr>, tr)
      else if addr = RCC_PLLI2SCFGR then (s\<lparr>rcc_plli2scfgr := v\<rparr>, tr)
      else if addr = RCC_DCKCFGR then (s\<lparr>rcc_dckcfgr := v\<rparr>, tr)
      else (s, tr @ [Log_guest_error ''STM32F4XX_rcc_write: Bad offset'' (ucast addr)]))"

section \<open>Flash-controller peripheral (stm32f4xx\_flash)\<close>

definition FLASH_ACR :: u64 where [flash_offs]: "FLASH_ACR = 0x00"
definition FLASH_KEYR :: u64 where [flash_offs]: "FLASH_KEYR = 0x04"
definition FLASH_OPTKEYR :: u64 where [flash_offs]: "FLASH_OPTKEYR = 0x08"
definition FLASH_SR :: u64 where [flash_offs]: "FLASH_SR = 0x0C"
definition FLASH_CR :: u64 where [flash_offs]: "FLASH_CR = 0x10"
definition FLASH_OPTCR :: u64 where [flash_offs]: "FLASH_OPTCR = 0x14"
definition FLASH_OPTCR1 :: u64 where [flash_offs]: "FLASH_OPTCR1 = 0x18"

definition flash_defined_offsets :: "u64 list" where
  "flash_defined_offsets =
     [FLASH_ACR, FLASH_KEYR, FLASH_OPTKEYR, FLASH_SR, FLASH_CR, FLASH_OPTCR, FLASH_OPTCR1]"

record STM32F4xxFlashState =
  flash_acr :: u32
  flash_keyr :: u32
  flash_optkeyr :: u32
  flash_sr :: u32
  flash_cr :: u32
  flash_optcr :: u32
  flash_optcr1 :: u32

definition stm32f4xx_flash_reset :: "STM32F4xxFlashState \<Rightarrow> STM32F4xxFlashState" where
  "stm32f4xx_flash_reset s =
     s\<lparr>flash_acr := 0x00000000,
       flash_keyr := 0x00000000,
       flash_optkeyr := 0x00000000,
       flash_sr := 0x00000000,
       flash_cr := 0x80000000,
       flash_optcr := 0x0FFFAAED,
       flash_optcr1 := 0x0FFF0000\<rparr>"

text \<open>The gating code of the flash interrupt input is commented out: trace, then pulse.\<close>

definition stm32f4xx_flash_set_irq ::
  "STM32F4xxFlashState \<Rightarrow> int \<Rightarrow> int \<Rightarrow> STM32F4xxFlashState \<times> event list" where
  "stm32f4xx_flash_set_irq s irq level = (s, [Trace_set_irq irq level, Irq_pulse])"

text \<open>The \<open>FLASH_CR\<close> case of the read switch returns \<open>s->flash_sr\<close>.\<close>

definition stm32f4xx_flash_read :: "STM32F4xxFlashState \<Rightarrow> u64 \<Rightarrow> u32 \<Rightarrow> u64 \<times> event list" where
  "stm32f4xx_flash_read s addr sz =
     (if addr = FLASH_ACR then (ucast (flash_acr s), [Trace_read addr])
      else if addr = FLASH_KEYR then (ucast (flash_keyr s), [Trace_read addr])
      else if addr = FLASH_OPTKEYR then (ucast (flash_optkeyr s), [Trace_read addr])
      else if addr = FLASH_SR then (ucast (flash_sr s), [Trace_read addr])
      else if addr = FLASH_CR then (ucast (flash_sr s), [Trace_read addr])
      else if addr = FLASH_OPTCR then (ucast (flash_optcr s), [Trace_read addr])
      else if addr = FLASH_OPTCR1 then (ucast (flash_optcr1 s), [Trace_read addr])
      else (0, [Trace_read addr,
                Log_guest_error ''STM32F4XX_flash_read: Bad offset'' (ucast addr)]))"

definition stm32f4xx_flash_write ::
  "STM32F4xxFlashState \<Rightarrow> u64 \<Rightarrow> u64 \<Rightarrow> u32 \<Rightarrow> STM32F4xxFlashState \<times> event list" where
  "stm32f4xx_flash_write s addr val64 sz =
     (let v = (ucast val64 :: u32); tr = [Trace_write addr v] in
      if addr = FLASH_ACR then (s\<lparr>flash_acr := v\<rparr>, tr)
      else if addr = FLASH_KEYR then (s\<lparr>flash_keyr := v\<rparr>, tr)
      else if addr = FLASH_OPTKEYR then (s\<lparr>flash_optkeyr := v\<rparr>, tr)
      else if addr = FLASH_SR then (s\<lparr>flash_sr := v\<rparr>, tr)
      else if addr = FLASH_CR then (s\<lparr>flash_cr := v\<rparr>, tr)
      else if addr = FLASH_OPTCR then (s\<lparr>flash_optcr := v\<rparr>, tr)
      else if addr = FLASH_OPTCR1 then (s\<lparr>flash_optcr1 := v\<rparr>, tr)
      else (s, tr @ [Log_guest_error ''STM32F4XX_flash_write: Bad offset'' (ucast addr)]))"

section \<open>Concrete states and the properties under study\<close>

text \<open>
  A device object is allocated zero-filled; \<open>reset\<close> runs on it afterwards. These two
  states are the concrete inputs of the evaluations below.
\<close>

definition rcc_zero_state :: STM32F4xxRccState where
  "rcc_zero_state =
     \<lparr>rcc_cr = 0, rcc_pllcfgr = 0, rcc_cfgr = 0, rcc_cir = 0, rcc_ahb1rstr = 0,
      rcc_ahb2rstr = 0, rcc_reserved0 = [0, 0], rcc_apb1rstr = 0, rcc_apb2rstr = 0,
      rcc_reserved1 = [0, 0], rcc_ahb1enr = 0, rcc_ahb2enr = 0, rcc_reserved2 = [0, 0],
      rcc_apb1enr = 0, rcc_apb2enr = 0, rcc_reserved3 = [0, 0], rcc_ahb1lpenr = 0,
      rcc_ahb2lpenr = 0, rcc_reserved4 = [0, 0], rcc_apb1lpenr = 0, rcc_apb2lpenr = 0,
      rcc_reserved5 = [0, 0], rcc_bdcr = 0, rcc_csr = 0, rcc_reserved6 = [0, 0],
      rcc_sscgr = 0, rcc_plli2scfgr = 0, rcc_reserved7 = [0], rcc_dckcfgr = 0\<rparr>"

definition flash_zero_state :: STM32F4xxFlashState where
  "flash_zero_state =
     \<lparr>flash_acr = 0, flash_keyr = 0, flash_optkeyr = 0, flash_sr = 0, flash_cr = 0,
      flash_optcr = 0, flash_optcr1 = 0\<rparr>"

text \<open>
  A clock-control state with work done on it: what reset followed by writes of
  0x05010001 to \<open>RCC_CR\<close>, 2 to \<open>RCC_CFGR\<close> and 0x400 to \<open>RCC_CIR\<close> leaves (all four
  oscillators on and ready, clock 2 selected and active, HSE-ready interrupt enabled).
\<close>

definition rcc_running_state :: STM32F4xxRccState where
  "rcc_running_state =
     (stm32f4xx_rcc_reset rcc_zero_state)
       \<lparr>rcc_cr := 0x0F030003, rcc_cfgr := 0x0000000A, rcc_cir := 0x00000400\<rparr>"

text \<open>
  Everything that can be done to the flash controller: the two MMIO callbacks, the device
  reset and its interrupt input. \<open>flash_reads\<close> runs a sequence of such operations from
  a state and collects what each MMIO read returned, in order: the guest's whole view of
  the register file over that run.
\<close>

datatype flash_op =
    Flash_read u64 u32
  | Flash_write u64 u64 u32
  | Flash_reset
  | Flash_set_irq int int

fun flash_reads :: "STM32F4xxFlashState \<Rightarrow> flash_op list \<Rightarrow> (u64 \<times> event list) list" where
  "flash_reads s [] = []"
| "flash_reads s (Flash_read addr sz # ops) =
     stm32f4xx_flash_read s addr sz # flash_reads s ops"
| "flash_reads s (Flash_write addr val64 sz # ops) =
     flash_reads (fst (stm32f4xx_flash_write s addr val64 sz)) ops"
| "flash_reads s (Flash_reset # ops) = flash_reads (stm32f4xx_flash_reset s) ops"
| "flash_reads s (Flash_set_irq irq level # ops) =
     flash_reads (fst (stm32f4xx_flash_set_irq s irq level)) ops"

text \<open>
  The consistency conditions of the derived bits: in \<open>rcc_cr\<close> each ready bit equals its
  enable bit (pairs 1/0, 17/16, 25/24, 27/26); in \<open>rcc_cfgr\<close> the switch-status field
  (bits 3:2) equals the switch field (bits 1:0).
\<close>

definition rcc_cr_consistent :: "u32 \<Rightarrow> bool" where
  "rcc_cr_consistent w \<longleftrightarrow>
     bit w 1 = bit w 0 \<and> bit w 17 = bit w 16 \<and> bit w 25 = bit w 24 \<and> bit w 27 = bit w 26"

definition rcc_cfgr_consistent :: "u32 \<Rightarrow> bool" where
  "rcc_cfgr_consistent w \<longleftrightarrow> drop_bit 2 w AND 3 = w AND 3"

definition rcc_invariant :: "STM32F4xxRccState \<Rightarrow> bool" where
  "rcc_invariant s \<longleftrightarrow> rcc_cr_consistent (rcc_cr s) \<and> rcc_cfgr_consistent (rcc_cfgr s)"

section \<open>Bit-level facts about the derivation rules\<close>

lemma ucast_BIT: "(ucast (BIT n) :: u32) = push_bit n 1"
  unfolding BIT_def by (rule bit_word_eqI) (auto simp add: bit_simps)

lemma enable_cond:
  "n < 32 \<Longrightarrow> ((ucast ((ucast (w :: u32) :: u64) AND BIT n) :: u32) \<noteq> 0) = bit w n"
proof -
  assume n: "n < 32"
  have "(ucast ((ucast w :: u64) AND BIT n) :: u32) = w AND push_bit n 1"
    unfolding BIT_def by (rule bit_word_eqI) (auto simp add: bit_simps)
  then show ?thesis using n
    by (simp add: and_exp_eq_0_iff_not_bit push_bit_eq_mult)
qed

lemma enable_gate: "n < 32 \<Longrightarrow> ((w :: u32) AND ucast (BIT n) \<noteq> 0) = bit w n"
  by (simp add: ucast_BIT and_exp_eq_0_iff_not_bit push_bit_eq_mult)

lemma bit_set_or_clear_if:
  "bit (set_or_clear_if v m c) n =
     (if c \<noteq> 0 then bit v n \<or> bit m n else bit v n \<and> \<not> bit m n)"
  by (auto simp add: set_or_clear_if_def bit_simps dest: bit_imp_le_length)

text \<open>One line of \<open>handle_rcc_cr_write\<close>: bit \<open>r\<close> takes the value of bit \<open>e\<close>.\<close>

lemma bit_ready_follows_enable:
  assumes "e < 32" "r < 32"
  shows "bit (set_or_clear_if v (ucast (BIT r)) (ucast ((ucast v :: u64) AND BIT e))) n =
           (if n = r then bit v e else bit v n)"
  using assms
  by (auto simp add: bit_set_or_clear_if enable_cond ucast_BIT bit_simps dest: bit_imp_le_length)

lemma bit_handle_rcc_cr_write:
  "bit (handle_rcc_cr_write v) n =
     (if n = 1 then bit v 0 else if n = 17 then bit v 16
      else if n = 25 then bit v 24 else if n = 27 then bit v 26 else bit v n)"
  by (simp add: handle_rcc_cr_write_def Let_def bit_ready_follows_enable)

lemma bit_3: "bit (3 :: 'a :: len word) k = (k < 2 \<and> k < LENGTH('a))"
proof -
  have "(3 :: 'a word) = mask 2" by (simp add: mask_eq_exp_minus_1)
  then show ?thesis by (simp only: bit_mask_iff) auto
qed

lemma bit_12: "bit (12 :: 'a :: len word) k = ((k = 2 \<or> k = 3) \<and> k < LENGTH('a))"
proof -
  have "(12 :: 'a word) = push_bit 2 (mask 2)" by (simp add: mask_eq_exp_minus_1)
  then show ?thesis by (simp only: bit_push_bit_iff bit_mask_iff) auto
qed

lemma handle_rcc_cfgr_write_eq:
  "handle_rcc_cfgr_write v = (v AND NOT 12) OR push_bit 2 (v AND 3)"
  by (simp add: handle_rcc_cfgr_write_def)

lemma bit_handle_rcc_cfgr_write:
  "bit (handle_rcc_cfgr_write v) n =
     (if n = 2 then bit v 0 else if n = 3 then bit v 1 else bit v n)"
  unfolding handle_rcc_cfgr_write_eq
  apply (simp only: bit_or_iff bit_and_iff bit_not_iff bit_push_bit_iff bit_3 bit_12)
  apply (auto dest: bit_imp_le_length)
  done

lemma handle_rcc_cr_write_consistent: "rcc_cr_consistent (handle_rcc_cr_write v)"
  by (simp add: rcc_cr_consistent_def bit_handle_rcc_cr_write)

lemma handle_rcc_cfgr_write_consistent: "rcc_cfgr_consistent (handle_rcc_cfgr_write v)"
  unfolding rcc_cfgr_consistent_def
  apply (rule bit_word_eqI)
  apply (simp only: bit_and_iff bit_drop_bit_eq comp_def bit_handle_rcc_cfgr_write bit_3)
  apply auto
  done

section \<open>What a write leaves in the register file\<close>

lemma rcc_cr_readback:
  "fst (stm32f4xx_rcc_read (fst (stm32f4xx_rcc_write s RCC_CR val64 sz)) RCC_CR sz') =
     ucast (handle_rcc_cr_write (ucast val64))"
  by (simp add: stm32f4xx_rcc_read_def stm32f4xx_rcc_write_def Let_def)

lemma rcc_cfgr_readback:
  "fst (stm32f4xx_rcc_read (fst (stm32f4xx_rcc_write s RCC_CFGR val64 sz)) RCC_CFGR sz') =
     ucast (handle_rcc_cfgr_write (ucast val64))"
  by (simp add: stm32f4xx_rcc_read_def stm32f4xx_rcc_write_def Let_def rcc_offs)

lemma rcc_cr_after_write:
  "rcc_cr (fst (stm32f4xx_rcc_write s addr val64 sz)) =
     (if addr = RCC_CR then handle_rcc_cr_write (ucast val64) else rcc_cr s)"
  by (simp add: stm32f4xx_rcc_write_def Let_def)

lemma rcc_cfgr_after_write:
  "rcc_cfgr (fst (stm32f4xx_rcc_write s addr val64 sz)) =
     (if addr = RCC_CFGR then handle_rcc_cfgr_write (ucast val64) else rcc_cfgr s)"
  by (simp add: stm32f4xx_rcc_write_def Let_def rcc_offs)

lemma rcc_write_unmapped:
  assumes "addr \<notin> set rcc_defined_offsets"
  shows "stm32f4xx_rcc_write s addr val64 sz =
           (s, [Trace_write addr (ucast val64),
                Log_guest_error ''STM32F4XX_rcc_write: Bad offset'' (ucast addr)])"
  using assms by (simp add: stm32f4xx_rcc_write_def rcc_defined_offsets_def Let_def)

lemma rcc_read_unmapped:
  assumes "addr \<notin> set rcc_defined_offsets"
  shows "stm32f4xx_rcc_read s addr sz =
           (0, [Trace_read addr,
                Log_guest_error ''STM32F4XX_rcc_read: Bad offset'' (ucast addr)])"
  using assms by (simp add: stm32f4xx_rcc_read_def rcc_defined_offsets_def)

lemma flash_write_unmapped:
  assumes "addr \<notin> set flash_defined_offsets"
  shows "stm32f4xx_flash_write s addr val64 sz =
           (s, [Trace_write addr (ucast val64),
                Log_guest_error ''STM32F4XX_flash_write: Bad offset'' (ucast addr)])"
  using assms by (simp add: stm32f4xx_flash_write_def flash_defined_offsets_def Let_def)

lemma flash_read_unmapped:
  assumes "addr \<notin> set flash_defined_offsets"
  shows "stm32f4xx_flash_read s addr sz =
           (0, [Trace_read addr,
                Log_guest_error ''STM32F4XX_flash_read: Bad offset'' (ucast addr)])"
  using assms by (simp add: stm32f4xx_flash_read_def flash_defined_offsets_def)

section \<open>The interrupt input handler on the lines it is registered for\<close>

text \<open>
  \<open>qdev_init_gpio_in\<close> registers \<open>RCC_IRQ_COUNT\<close> lines, numbered from 0. On those the
  handler returns, and only \<open>rcc_cir\<close> can differ afterwards.
\<close>

lemma rcc_set_irq_result:
  assumes "0 \<le> irq" "irq < RCC_IRQ_COUNT"
  shows "stm32f4xx_rcc_set_irq s irq level =
           Inr (if level \<noteq> 0 \<and> (irq = RCC_IRQ_CSS \<or> bit (rcc_cir s) (nat (irq + 7)))
                then s\<lparr>rcc_cir := rcc_cir s OR word_of_int irq\<rparr> else s,
                [Trace_set_irq irq level, Irq_pulse])"
proof -
  from assms have "nat (irq + 7) < 32" by (simp add: RCC_IRQ_COUNT_def)
  then have g: "(rcc_cir s AND ucast (BIT (nat (irq + 7))) \<noteq> 0) = bit (rcc_cir s) (nat (irq + 7))"
    by (rule enable_gate)
  show ?thesis using assms
    by (simp add: stm32f4xx_rcc_set_irq_def RCC_CIR_ENABLE_BIT_OFFSET_def Let_def g)
qed

section \<open>Reset values and reads\<close>

text \<open>
  After reset every defined register of the clock-control peripheral reads as its reset
  constant, and so does every register of the flash controller other than \<open>FLASH_CR\<close>.
\<close>

lemma rcc_reset_values_read_back:
  "map (\<lambda>off. fst (stm32f4xx_rcc_read (stm32f4xx_rcc_reset s) off sz)) rcc_defined_offsets =
     [0x0000FF81, 0x24003010, 0, 0, 0, 0, 0, 0, 0, 0, 0, 0,
      0x0061900F, 0x00000080, 0x10E2C80F, 0x00077930, 0, 0x0E000000, 0, 0x24003000, 0]"
  by (simp add: stm32f4xx_rcc_read_def stm32f4xx_rcc_reset_def rcc_defined_offsets_def rcc_offs)

lemma flash_reset_values_read_back:
  "map (\<lambda>off. fst (stm32f4xx_flash_read (stm32f4xx_flash_reset s) off sz))
       [FLASH_ACR, FLASH_KEYR, FLASH_OPTKEYR, FLASH_SR, FLASH_OPTCR, FLASH_OPTCR1] =
     [0, 0, 0, 0, 0x0FFFAAED, 0x0FFF0000]"
  by (simp add: stm32f4xx_flash_read_def stm32f4xx_flash_reset_def flash_offs)

lemma rcc_running_state_reached:
  "fst (stm32f4xx_rcc_write
          (fst (stm32f4xx_rcc_write
                  (fst (stm32f4xx_rcc_write (stm32f4xx_rcc_reset rcc_zero_state)
                          RCC_CR 0x05010001 4))
                  RCC_CFGR 2 4))
          RCC_CIR 0x400 4) = rcc_running_state"
  by (simp add: stm32f4xx_rcc_write_def handle_rcc_cr_write_def handle_rcc_cfgr_write_def
      set_or_clear_if_def BIT_def Let_def rcc_offs rcc_running_state_def
      stm32f4xx_rcc_reset_def)

section \<open>The flash control register across a run of operations\<close>

text \<open>
  No operation reads \<open>flash_cr\<close>: a read returns the same with any value in it, a write
  or the interrupt input carries it along (or overwrites it, at \<open>FLASH_CR\<close>), reset
  overwrites it. So two runs of the same operations from states that differ only in
  \<open>flash_cr\<close> return the same at every read.
\<close>

lemma flash_read_ignores_cr:
  "stm32f4xx_flash_read (s\<lparr>flash_cr := c\<rparr>) addr sz = stm32f4xx_flash_read s addr sz"
  by (simp add: stm32f4xx_flash_read_def)

lemma flash_write_commutes_cr:
  "fst (stm32f4xx_flash_write (s\<lparr>flash_cr := c\<rparr>) addr val64 sz) =
     (fst (stm32f4xx_flash_write s addr val64 sz))
       \<lparr>flash_cr := (if addr = FLASH_CR then ucast val64 else c)\<rparr>"
  by (simp add: stm32f4xx_flash_write_def Let_def flash_offs)

lemma flash_reset_forgets_cr:
  "stm32f4xx_flash_reset (s\<lparr>flash_cr := c\<rparr>) = stm32f4xx_flash_reset s"
  by (simp add: stm32f4xx_flash_reset_def)

lemma flash_cr_write_is_cr_update:
  "fst (stm32f4xx_flash_write s FLASH_CR val64 sz) = s\<lparr>flash_cr := ucast val64\<rparr>"
  by (simp add: stm32f4xx_flash_write_def Let_def flash_offs)

lemma flash_reads_ignore_cr:
  "flash_reads (s\<lparr>flash_cr := c\<rparr>) ops = flash_reads s ops"
proof (induction ops arbitrary: s c)
  case Nil
  show ?case by simp
next
  case (Cons op ops)
  show ?case
  proof (cases op)
    case (Flash_read addr sz)
    then show ?thesis by (simp add: flash_read_ignores_cr Cons.IH)
  next
    case (Flash_write addr val64 sz)
    have "flash_reads (fst (stm32f4xx_flash_write (s\<lparr>flash_cr := c\<rparr>) addr val64 sz)) ops =
            flash_reads (fst (stm32f4xx_flash_write s addr val64 sz)) ops"
      unfolding flash_write_commutes_cr by (rule Cons.IH)
    with Flash_write show ?thesis by simp
  next
    case Flash_reset
    then show ?thesis by (simp add: flash_reset_forgets_cr)
  next
    case (Flash_set_irq irq level)
    then show ?thesis by (simp add: stm32f4xx_flash_set_irq_def Cons.IH)
  qed
qed

section \<open>Claims about the clock-control peripheral\<close>

text \<open>
  C1. A raised event's flag bit is latched into \<open>rcc_cir\<close> exactly when the event is the
  clock-security event or its enable bit (bit index + 7) is set. The handler does not do
  this: it or-s the event index, not a bit for it, into \<open>rcc_cir\<close>. Evaluated on the LSI
  event (index 0) with its enable bit 7 set, the gate is open and \<open>rcc_cir\<close> comes back
  as it was, 0x80, with no flag latched; on the HSE event (index 3) with its enable bit
  10 set, the value 3 is or-ed in, which sets bits 0 and 1 and leaves bit 3 clear.
\<close>

theorem rcc_set_irq_flag_not_latched:
  "rcc_cir (rcc_zero_state\<lparr>rcc_cir := 0x80\<rparr>)
       AND ucast (BIT (nat (RCC_IRQ_LSI_READY + RCC_CIR_ENABLE_BIT_OFFSET))) \<noteq> 0
   \<and> stm32f4xx_rcc_set_irq (rcc_zero_state\<lparr>rcc_cir := 0x80\<rparr>) RCC_IRQ_LSI_READY 1 =
       Inr (rcc_zero_state\<lparr>rcc_cir := 0x80\<rparr>, [Trace_set_irq 0 1, Irq_pulse])
   \<and> stm32f4xx_rcc_set_irq (rcc_zero_state\<lparr>rcc_cir := 0x400\<rparr>) RCC_IRQ_HSE_READY 1 =
       Inr (rcc_zero_state\<lparr>rcc_cir := 0x403\<rparr>, [Trace_set_irq 3 1, Irq_pulse])"
  by (simp add: stm32f4xx_rcc_set_irq_def RCC_CIR_ENABLE_BIT_OFFSET_def Let_def
      RCC_IRQ_LSI_READY_def RCC_IRQ_HSE_READY_def RCC_IRQ_COUNT_def RCC_IRQ_CSS_def BIT_def
      rcc_zero_state_def)

text \<open>
  C4 (as amended). Reset is idempotent, and the reset value of \<open>rcc_cfgr\<close> is a fixed
  point of \<open>handle_rcc_cfgr_write\<close>. The reset value of \<open>rcc_cr\<close> is 0x0000FF81, with
  HSION set and HSIRDY clear: \<open>handle_rcc_cr_write\<close> maps it to 0x0000FF83, so it is not a
  fixed point (the other three pairs are clear and consistent).
\<close>

theorem rcc_reset_idempotent_cfgr_fixed:
  "stm32f4xx_rcc_reset (stm32f4xx_rcc_reset s) = stm32f4xx_rcc_reset s
   \<and> handle_rcc_cfgr_write (rcc_cfgr (stm32f4xx_rcc_reset s)) = rcc_cfgr (stm32f4xx_rcc_reset s)
   \<and> rcc_cr (stm32f4xx_rcc_reset s) = 0x0000FF81
   \<and> handle_rcc_cr_write (rcc_cr (stm32f4xx_rcc_reset s)) = 0x0000FF83"
  by (simp add: stm32f4xx_rcc_reset_def handle_rcc_cr_write_def handle_rcc_cfgr_write_def
      set_or_clear_if_def BIT_def Let_def)

text \<open>
  C4 as stated fails: on the state reset produces, re-running the rule of \<open>rcc_cr\<close>
  changes the register.
\<close>

theorem rcc_reset_cr_not_fixed_counterexample:
  "handle_rcc_cr_write (rcc_cr (stm32f4xx_rcc_reset rcc_zero_state)) \<noteq>
     rcc_cr (stm32f4xx_rcc_reset rcc_zero_state)"
  by (simp add: stm32f4xx_rcc_reset_def handle_rcc_cr_write_def set_or_clear_if_def BIT_def
      Let_def)

text \<open>
  C5. Whatever is written to \<open>RCC_CR\<close>, the value read back has each enable bit as
  written (bits 0, 16, 24, 26) and each ready bit (1, 17, 25, 27) equal to its enable
  bit.
\<close>

theorem rcc_cr_ready_follows_enable:
  "let r = fst (stm32f4xx_rcc_read (fst (stm32f4xx_rcc_write s RCC_CR val64 sz)) RCC_CR sz')
   in bit r 0 = bit val64 0 \<and> bit r 1 = bit r 0
    \<and> bit r 16 = bit val64 16 \<and> bit r 17 = bit r 16
    \<and> bit r 24 = bit val64 24 \<and> bit r 25 = bit r 24
    \<and> bit r 26 = bit val64 26 \<and> bit r 27 = bit r 26"
  unfolding rcc_cr_readback Let_def
  by (simp add: bit_word_ucast_iff bit_handle_rcc_cr_write)

text \<open>
  C6. Whatever is written to \<open>RCC_CFGR\<close>, the value read back has its bits 3:2 equal
  to the low two bits of the written value, and agrees with the written 32-bit value on
  every bit outside 3:2 (mask 12).
\<close>

theorem rcc_cfgr_status_follows_switch:
  "let r = fst (stm32f4xx_rcc_read (fst (stm32f4xx_rcc_write s RCC_CFGR val64 sz)) RCC_CFGR sz')
   in drop_bit 2 r AND 3 = val64 AND 3
    \<and> r AND NOT 12 = ucast (ucast val64 :: u32) AND NOT 12"
proof -
  have a: "drop_bit 2 (ucast (handle_rcc_cfgr_write (ucast val64)) :: u64) AND 3 = val64 AND 3"
    apply (rule bit_word_eqI)
    apply (simp only: bit_and_iff bit_drop_bit_eq bit_word_ucast_iff comp_def
        bit_handle_rcc_cfgr_write bit_3)
    apply auto
    done
  have b: "(ucast (handle_rcc_cfgr_write (ucast val64)) :: u64) AND NOT 12 =
             ucast (ucast val64 :: u32) AND NOT 12"
    apply (rule bit_word_eqI)
    apply (simp only: bit_and_iff bit_not_iff bit_word_ucast_iff bit_handle_rcc_cfgr_write
        bit_12)
    apply auto
    done
  show ?thesis unfolding rcc_cfgr_readback Let_def using a b by simp
qed

text \<open>
  C8. On each of its registered input lines (0 up to \<open>RCC_IRQ_COUNT - 1\<close>) the handler
  returns and pulses the output line exactly once, for every state and level, hence also
  when the enable gate kept the event out of \<open>rcc_cir\<close>.
\<close>

theorem rcc_set_irq_always_pulses:
  assumes "0 \<le> irq" "irq < RCC_IRQ_COUNT"
  shows "\<exists>s' evs. stm32f4xx_rcc_set_irq s irq level = Inr (s', evs) \<and> pulses evs = 1"
  by (simp add: rcc_set_irq_result [OF assms] pulses_def)

text \<open>The LSI event raised with its enable bit clear: nothing is latched, the line pulses.\<close>

theorem rcc_set_irq_always_pulses_witness:
  "(0 :: int) \<le> RCC_IRQ_LSI_READY \<and> RCC_IRQ_LSI_READY < RCC_IRQ_COUNT
   \<and> (\<exists>s' evs. stm32f4xx_rcc_set_irq rcc_zero_state RCC_IRQ_LSI_READY 1 = Inr (s', evs)
         \<and> pulses evs = 1)"
  using rcc_set_irq_always_pulses [of RCC_IRQ_LSI_READY rcc_zero_state 1]
  by (simp add: RCC_IRQ_LSI_READY_def RCC_IRQ_COUNT_def)

text \<open>
  C9. The consistency invariant is preserved by an MMIO write at any offset with any
  value and by the interrupt handler on any registered line; and a write to \<open>RCC_CR\<close> or
  \<open>RCC_CFGR\<close> establishes the respective equality from any state \<open>t\<close>, whatever is
  written.
\<close>

theorem rcc_invariant_preserved:
  assumes "rcc_invariant s" and "0 \<le> irq" and "irq < RCC_IRQ_COUNT"
  shows "rcc_invariant (fst (stm32f4xx_rcc_write s addr val64 sz))
       \<and> (\<exists>s' evs. stm32f4xx_rcc_set_irq s irq level = Inr (s', evs) \<and> rcc_invariant s')
       \<and> rcc_cr_consistent (rcc_cr (fst (stm32f4xx_rcc_write t RCC_CR val64 sz)))
       \<and> rcc_cfgr_consistent (rcc_cfgr (fst (stm32f4xx_rcc_write t RCC_CFGR val64 sz)))"
proof -
  have wr: "rcc_invariant (fst (stm32f4xx_rcc_write s addr val64 sz))"
    using assms(1) unfolding rcc_invariant_def rcc_cr_after_write rcc_cfgr_after_write
    by (simp add: handle_rcc_cr_write_consistent handle_rcc_cfgr_write_consistent)
  have irq: "\<exists>s' evs. stm32f4xx_rcc_set_irq s irq level = Inr (s', evs) \<and> rcc_invariant s'"
    using assms(1) by (simp add: rcc_set_irq_result [OF assms(2,3)] rcc_invariant_def)
  have cr: "rcc_cr_consistent (rcc_cr (fst (stm32f4xx_rcc_write t RCC_CR val64 sz)))"
    by (simp add: rcc_cr_after_write handle_rcc_cr_write_consistent)
  have cfgr: "rcc_cfgr_consistent (rcc_cfgr (fst (stm32f4xx_rcc_write t RCC_CFGR val64 sz)))"
    by (simp add: rcc_cfgr_after_write handle_rcc_cfgr_write_consistent)
  from wr irq cr cfgr show ?thesis by blast
qed

text \<open>
  The running state satisfies the invariant with bits set in every pair. The value
  written, 0x05010001, has the four enable bits set and no ready bit, and switch field 1
  with status field 0: stored as it is it would break both equalities, so the invariant
  after the write is the work of the derivation rules (\<open>rcc_cr\<close> becomes 0x0F030003,
  \<open>rcc_cfgr\<close> 0x05010005). The HSE event is enabled in \<open>rcc_cir\<close>, so the handler does
  latch. The state after reset, which does not satisfy the invariant, serves as \<open>t\<close>.
\<close>

theorem rcc_invariant_preserved_witness:
  "rcc_invariant rcc_running_state
   \<and> (0 :: int) \<le> RCC_IRQ_HSE_READY \<and> RCC_IRQ_HSE_READY < RCC_IRQ_COUNT
   \<and> rcc_invariant (fst (stm32f4xx_rcc_write rcc_running_state RCC_CR 0x05010001 4))
   \<and> (\<exists>s' evs. stm32f4xx_rcc_set_irq rcc_running_state RCC_IRQ_HSE_READY 1 = Inr (s', evs)
         \<and> rcc_invariant s')
   \<and> rcc_cr_consistent
        (rcc_cr (fst (stm32f4xx_rcc_write (stm32f4xx_rcc_reset rcc_zero_state)
                        RCC_CR 0x05010001 4)))
   \<and> rcc_cfgr_consistent
        (rcc_cfgr (fst (stm32f4xx_rcc_write (stm32f4xx_rcc_reset rcc_zero_state)
                          RCC_CFGR 0x05010001 4)))
   \<and> rcc_cr (fst (stm32f4xx_rcc_write rcc_running_state RCC_CR 0x05010001 4)) = 0x0F030003
   \<and> rcc_cfgr (fst (stm32f4xx_rcc_write (stm32f4xx_rcc_reset rcc_zero_state)
                       RCC_CFGR 0x05010001 4)) = 0x05010005
   \<and> rcc_cr_consistent 0x05010001 = False
   \<and> rcc_cfgr_consistent 0x05010001 = False
   \<and> rcc_invariant (stm32f4xx_rcc_reset rcc_zero_state) = False"
proof -
  have i: "rcc_invariant rcc_running_state"
    by (simp add: rcc_invariant_def rcc_cr_consistent_def rcc_cfgr_consistent_def
        rcc_running_state_def)
  have lo: "(0 :: int) \<le> RCC_IRQ_HSE_READY" by (simp add: RCC_IRQ_HSE_READY_def)
  have hi: "RCC_IRQ_HSE_READY < RCC_IRQ_COUNT"
    by (simp add: RCC_IRQ_HSE_READY_def RCC_IRQ_COUNT_def)
  have v: "rcc_cr (fst (stm32f4xx_rcc_write rcc_running_state RCC_CR 0x05010001 4)) =
             0x0F030003"
    by (simp add: stm32f4xx_rcc_write_def handle_rcc_cr_write_def set_or_clear_if_def
        BIT_def Let_def)
  have w: "rcc_cfgr (fst (stm32f4xx_rcc_write (stm32f4xx_rcc_reset rcc_zero_state)
                            RCC_CFGR 0x05010001 4)) = 0x05010005"
    by (simp add: stm32f4xx_rcc_write_def handle_rcc_cfgr_write_def Let_def rcc_offs)
  have n: "rcc_cr_consistent 0x05010001 = False \<and> rcc_cfgr_consistent 0x05010001 = False"
    by (simp add: rcc_cr_consistent_def rcc_cfgr_consistent_def)
  have r: "rcc_invariant (stm32f4xx_rcc_reset rcc_zero_state) = False"
    by (simp add: rcc_invariant_def rcc_cr_consistent_def stm32f4xx_rcc_reset_def)
  show ?thesis
    using i lo hi v w n r
      rcc_invariant_preserved [OF i lo hi, of RCC_CR "0x05010001" 4 1
        "stm32f4xx_rcc_reset rcc_zero_state"]
    by simp
qed

section \<open>Claims about the flash controller\<close>

text \<open>
  C2 (as amended). Writing any value X to \<open>FLASH_CR\<close> leaves \<open>flash_sr\<close> as it was, and
  the read of \<open>FLASH_SR\<close> that follows returns that stored status value, whatever X is.
\<close>

theorem flash_sr_read_after_cr_write:
  "fst (stm32f4xx_flash_read (fst (stm32f4xx_flash_write s FLASH_CR val64 sz)) FLASH_SR sz') =
     ucast (flash_sr s)
   \<and> flash_sr (fst (stm32f4xx_flash_write s FLASH_CR val64 sz)) = flash_sr s"
  by (simp add: stm32f4xx_flash_read_def stm32f4xx_flash_write_def flash_offs Let_def)

text \<open>
  C2 as stated fails: after reset, writing 5 to \<open>FLASH_CR\<close> and reading \<open>FLASH_SR\<close> does
  not return 5 (it returns the stored status value, 0).
\<close>

theorem flash_cr_write_sr_read_counterexample:
  "fst (stm32f4xx_flash_read
          (fst (stm32f4xx_flash_write (stm32f4xx_flash_reset flash_zero_state) FLASH_CR 5 4))
          FLASH_SR 4) \<noteq> 5"
  by (simp add: stm32f4xx_flash_read_def stm32f4xx_flash_write_def stm32f4xx_flash_reset_def
      flash_zero_state_def flash_offs Let_def)

text \<open>
  C3. After reset a read at a register's offset returns its reset value. This fails for
  \<open>FLASH_CR\<close>: reset stores 0x80000000 in \<open>flash_cr\<close>, and the read at offset
  \<open>FLASH_CR\<close> returns 0, the reset value of \<open>flash_sr\<close>.
\<close>

theorem flash_cr_reset_value_not_read_back:
  "flash_cr (stm32f4xx_flash_reset s) = 0x80000000
   \<and> fst (stm32f4xx_flash_read (stm32f4xx_flash_reset s) FLASH_CR sz) = 0"
  by (simp add: stm32f4xx_flash_read_def stm32f4xx_flash_reset_def flash_offs)

text \<open>
  C10. Two flash-controller states that differ only in \<open>flash_cr\<close> give the same result
  for a read at every offset, and a read at \<open>FLASH_CR\<close> returns \<open>flash_sr\<close>. The same
  holds over time: whatever sequence of reads, writes, resets and interrupt inputs
  follows, every read of the run returns the same from both states. So after a write of
  any value to \<open>FLASH_CR\<close>, every later read, at any offset and after any further
  operations, returns what it would have returned had the write not happened.
\<close>

theorem flash_cr_not_observable:
  "stm32f4xx_flash_read (s\<lparr>flash_cr := c\<rparr>) addr sz = stm32f4xx_flash_read s addr sz
   \<and> fst (stm32f4xx_flash_read s FLASH_CR sz) = ucast (flash_sr s)
   \<and> stm32f4xx_flash_read (fst (stm32f4xx_flash_write s FLASH_CR val64 sz')) addr sz =
       stm32f4xx_flash_read s addr sz
   \<and> flash_reads (s\<lparr>flash_cr := c\<rparr>) ops = flash_reads s ops
   \<and> flash_reads (fst (stm32f4xx_flash_write s FLASH_CR val64 sz')) ops = flash_reads s ops"
proof -
  have "fst (stm32f4xx_flash_read s FLASH_CR sz) = ucast (flash_sr s)"
    by (simp add: stm32f4xx_flash_read_def flash_offs)
  then show ?thesis
    by (simp add: flash_cr_write_is_cr_update flash_read_ignores_cr flash_reads_ignore_cr)
qed

section \<open>Claims about both peripherals\<close>

text \<open>
  C7. At an offset inside the 0x400-byte window that has no case in the switch, a read
  returns 0 with exactly one guest-error diagnostic, and a write emits exactly one
  guest-error diagnostic and returns the register file as it was. A read never assigns
  a register, which is why it returns no state.
\<close>

theorem unmapped_offset_access:
  assumes "addr < mmio_window"
  shows "(addr \<notin> set rcc_defined_offsets \<longrightarrow>
            fst (stm32f4xx_rcc_read s addr sz) = 0
          \<and> length (diagnostics (snd (stm32f4xx_rcc_read s addr sz))) = 1
          \<and> fst (stm32f4xx_rcc_write s addr val64 sz) = s
          \<and> length (diagnostics (snd (stm32f4xx_rcc_write s addr val64 sz))) = 1)
       \<and> (addr \<notin> set flash_defined_offsets \<longrightarrow>
            fst (stm32f4xx_flash_read f addr sz) = 0
          \<and> length (diagnostics (snd (stm32f4xx_flash_read f addr sz))) = 1
          \<and> fst (stm32f4xx_flash_write f addr val64 sz) = f
          \<and> length (diagnostics (snd (stm32f4xx_flash_write f addr val64 sz))) = 1)"
  by (simp add: rcc_read_unmapped rcc_write_unmapped flash_read_unmapped flash_write_unmapped
      diagnostics_def)

text \<open>Offset 0x1C is reserved in the clock-control block and past the last flash register.\<close>

theorem unmapped_offset_access_witness:
  "(0x1C :: u64) < mmio_window
   \<and> 0x1C \<notin> set rcc_defined_offsets
   \<and> 0x1C \<notin> set flash_defined_offsets
   \<and> fst (stm32f4xx_rcc_read (stm32f4xx_rcc_reset rcc_zero_state) 0x1C 4) = 0
   \<and> length (diagnostics
        (snd (stm32f4xx_rcc_read (stm32f4xx_rcc_reset rcc_zero_state) 0x1C 4))) = 1
   \<and> fst (stm32f4xx_rcc_write (stm32f4xx_rcc_reset rcc_zero_state) 0x1C 0xFFFFFFFF 4) =
       stm32f4xx_rcc_reset rcc_zero_state
   \<and> length (diagnostics
        (snd (stm32f4xx_rcc_write (stm32f4xx_rcc_reset rcc_zero_state) 0x1C 0xFFFFFFFF 4))) = 1
   \<and> fst (stm32f4xx_flash_read (stm32f4xx_flash_reset flash_zero_state) 0x1C 4) = 0
   \<and> length (diagnostics
        (snd (stm32f4xx_flash_read (stm32f4xx_flash_reset flash_zero_state) 0x1C 4))) = 1
   \<and> fst (stm32f4xx_flash_write (stm32f4xx_flash_reset flash_zero_state) 0x1C 0xFFFFFFFF 4) =
       stm32f4xx_flash_reset flash_zero_state
   \<and> length (diagnostics
        (snd (stm32f4xx_flash_write (stm32f4xx_flash_reset flash_zero_state) 0x1C 0xFFFFFFFF 4))) = 1"
proof -
  have w: "(0x1C :: u64) < mmio_window" by (simp add: mmio_window_def)
  have r: "(0x1C :: u64) \<notin> set rcc_defined_offsets"
    by (simp add: rcc_defined_offsets_def rcc_offs)
  have f: "(0x1C :: u64) \<notin> set flash_defined_offsets"
    by (simp add: flash_defined_offsets_def flash_offs)
  show ?thesis
    using w r f
      unmapped_offset_access [OF w, of "stm32f4xx_rcc_reset rcc_zero_state" 4 "0xFFFFFFFF"
        "stm32f4xx_flash_reset flash_zero_state"]
    by simp
qed

end
